theory Spec2Isabelle
  imports Main
begin

section \<open>Values shared by the client, the hooks and the components\<close>

text \<open>
  A JavaScript string is modelled as a HOL \<open>string\<close>; a \<open>char\<close> stands for a code
  unit in the range 0..255. A \<open>File\<close> is its name, its MIME type and its size; the
  bytes are never read by the client.
\<close>

record File =
  name :: string
  type :: string
  size :: nat

text \<open>
  The values a \<open>catch\<close> clause of this program can receive: the plain \<open>Error\<close> the
  client throws, the exported class \<open>ApiError\<close> (status and message), the \<open>TypeError\<close>
  with which \<open>fetch\<close> rejects when no response is obtained, and the \<open>SyntaxError\<close> with
  which \<open>response.json()\<close> rejects on a body that is not JSON.
\<close>

datatype js_error =
    Error string
  | ApiError nat string
  | TypeError string
  | SyntaxError string

fun instanceof_ApiError :: "js_error \<Rightarrow> bool" where
  "instanceof_ApiError (ApiError st m) = True"
| "instanceof_ApiError (Error m) = False"
| "instanceof_ApiError (TypeError m) = False"
| "instanceof_ApiError (SyntaxError m) = False"

fun err_message :: "js_error \<Rightarrow> string" where
  "err_message (Error m) = m"
| "err_message (ApiError st m) = m"
| "err_message (TypeError m) = m"
| "err_message (SyntaxError m) = m"

section \<open>lib/api.ts\<close>

datatype request_body =
    FormData "(string \<times> File) list"
  | JSON_stringify "(string \<times> string) list"

record request =
  url :: string
  "method" :: string
  headers :: "(string \<times> string) list"
  body :: request_body

record response =
  status :: nat
  body_text :: string

text \<open>\<open>response.ok\<close>: the status is in the range 200 to 299.\<close>

definition ok :: "response \<Rightarrow> bool" where
  "ok r = (200 \<le> status r \<and> status r \<le> 299)"

datatype fetch_result =
    Rejected string
  | Resolved response

text \<open>
  What the browser and the remote service contribute to one call: the build-time
  setting \<open>NEXT_PUBLIC_API_URL\<close> (absent when unset), the outcome of \<open>fetch\<close> for a
  request, and \<open>response.json()\<close> as a function of the body text, which either rejects
  (\<open>Inl\<close>, the message of the \<open>SyntaxError\<close>) or resolves to a value of the declared
  interface (\<open>UploadResponse\<close> or \<open>QuestionResponse\<close>, the type parameter).
\<close>

record 'a env =
  NEXT_PUBLIC_API_URL :: "string option"
  fetch :: "request \<Rightarrow> fetch_result"
  json :: "string \<Rightarrow> string + 'a"

text \<open>\<open>process.env.NEXT_PUBLIC_API_URL || 'http://localhost:8000'\<close>: an unset or empty
  setting gives the default.\<close>

definition API_BASE_URL :: "'a env \<Rightarrow> string" where
  "API_BASE_URL e =
     (case NEXT_PUBLIC_API_URL e of
        None \<Rightarrow> ''http://localhost:8000''
      | Some u \<Rightarrow> if u = [] then ''http://localhost:8000'' else u)"

record 'n UploadResponse =
  message :: string
  filename :: string
  chunks_created :: 'n
  file_size_mb :: 'n

record QuestionResponse =
  answer :: string
  source_documents :: "string list"

text \<open>
  The object \<open>api\<close> has two properties, \<open>uploadPdf\<close> and \<open>askQuestion\<close>. Each is
  modelled by the request it builds and by a function returning what the promise
  settles to (\<open>Inl\<close> the thrown value, \<open>Inr\<close> the returned one) together with the list
  of requests it passed to \<open>fetch\<close>.
\<close>

datatype api_property = uploadPdf | askQuestion

definition api :: "api_property list" where
  "api = [uploadPdf, askQuestion]"

definition uploadPdf_request :: "'a env \<Rightarrow> File \<Rightarrow> request" where
  "uploadPdf_request e f =
     \<lparr>url = API_BASE_URL e @ ''/upload-pdf'', method = ''POST'', headers = [],
      body = FormData [(''file'', f)]\<rparr>"

definition askQuestion_request :: "'a env \<Rightarrow> string \<Rightarrow> request" where
  "askQuestion_request e q =
     \<lparr>url = API_BASE_URL e @ ''/ask-question'', method = ''POST'',
      headers = [(''Content-Type'', ''application/json'')],
      body = JSON_stringify [(''question'', q)]\<rparr>"

text \<open>The endpoint (method and path) behind each property of \<open>api\<close>.\<close>

fun api_endpoint :: "api_property \<Rightarrow> string \<times> string" where
  "api_endpoint uploadPdf = (''POST'', ''/upload-pdf'')"
| "api_endpoint askQuestion = (''POST'', ''/ask-question'')"

definition settle_response :: "'a env \<Rightarrow> string \<Rightarrow> fetch_result \<Rightarrow> js_error + 'a" where
  "settle_response e failed r =
     (case r of
        Rejected m \<Rightarrow> Inl (TypeError m)
      | Resolved resp \<Rightarrow>
          if \<not> ok resp then Inl (Error failed)
          else (case json e (body_text resp) of
                  Inl m \<Rightarrow> Inl (SyntaxError m)
                | Inr v \<Rightarrow> Inr v))"

definition api_uploadPdf :: "'a env \<Rightarrow> File \<Rightarrow> (js_error + 'a) \<times> request list" where
  "api_uploadPdf e f =
     (let req = uploadPdf_request e f
      in (settle_response e ''Upload failed'' (fetch e req), [req]))"

definition api_askQuestion :: "'a env \<Rightarrow> string \<Rightarrow> (js_error + 'a) \<times> request list" where
  "api_askQuestion e q =
     (let req = askQuestion_request e q
      in (settle_response e ''Question failed'' (fetch e req), [req]))"

section \<open>hooks/useFileUpload.ts\<close>

record 'u upload_state =
  uploading :: bool
  uploadResult :: "'u option"
  error :: "string option"

text \<open>The three \<open>useState\<close> initial values.\<close>

definition useFileUpload :: "'u upload_state" where
  "useFileUpload = \<lparr>uploading = False, uploadResult = None, error = None\<rparr>"

text \<open>
  \<open>uploadFile\<close> runs in two parts. The part before the \<open>await\<close> runs when the call is
  made; the part after it runs when the promise of the client settles, with \<open>try\<close>,
  \<open>catch\<close> and \<open>finally\<close> in the order of the source. The call settles to the pair of
  the final state and what the caller receives.
\<close>

definition uploadFile_begin :: "'u upload_state \<Rightarrow> 'u upload_state" where
  "uploadFile_begin s = s\<lparr>uploading := True, error := None\<rparr>"

definition uploadFile_settle ::
  "js_error + 'u \<Rightarrow> 'u upload_state \<Rightarrow> 'u upload_state \<times> (js_error + 'u)" where
  "uploadFile_settle r s =
     (case r of
        Inr result \<Rightarrow> ((s\<lparr>uploadResult := Some result\<rparr>)\<lparr>uploading := False\<rparr>, Inr result)
      | Inl err \<Rightarrow>
          (let errorMessage = (if instanceof_ApiError err then err_message err
                               else ''Upload failed'')
           in ((s\<lparr>error := Some errorMessage\<rparr>)\<lparr>uploading := False\<rparr>, Inl err)))"

definition uploadFile ::
  "'u env \<Rightarrow> File \<Rightarrow> 'u upload_state \<Rightarrow> ('u upload_state \<times> (js_error + 'u)) \<times> request list" where
  "uploadFile e f s =
     (let (r, reqs) = api_uploadPdf e f
      in (uploadFile_settle r (uploadFile_begin s), reqs))"

definition reset :: "'u upload_state \<Rightarrow> 'u upload_state" where
  "reset s = s\<lparr>uploadResult := None, error := None\<rparr>"

section \<open>hooks/useQuestions.ts\<close>

record QuestionHistory = QuestionResponse +
  id_field :: string
  question :: string
  timestamp :: int

record question_state =
  loading :: bool
  history :: "QuestionHistory list"
  error_q :: "string option"

definition useQuestions :: question_state where
  "useQuestions = \<lparr>loading = False, history = [], error_q = None\<rparr>"

text \<open>
  The two clock readings of a call that succeeds, in milliseconds since the epoch:
  \<open>Date.now()\<close> for the identifier and \<open>new Date()\<close> for the timestamp.
\<close>

record clock =
  Date_now :: int
  new_Date :: int

text \<open>\<open>Number.prototype.toString\<close> on an integer: its decimal digits, with a sign
  when negative.\<close>

definition digit :: "nat \<Rightarrow> char" where
  "digit d = ''0123456789'' ! d"

fun digits :: "nat \<Rightarrow> string" where
  "digits n =
     (if n < 10 then [digit n]
      else digits (n div 10) @ [digit (n mod 10)])"

declare digits.simps [simp del]

definition toString :: "int \<Rightarrow> string" where
  "toString i = (if i < 0 then CHR ''-'' # digits (nat (- i)) else digits (nat i))"

definition askQuestion_begin :: "question_state \<Rightarrow> question_state" where
  "askQuestion_begin s = s\<lparr>loading := True, error_q := None\<rparr>"

definition newEntry :: "clock \<Rightarrow> string \<Rightarrow> QuestionResponse \<Rightarrow> QuestionHistory" where
  "newEntry c q result =
     \<lparr>answer = answer result, source_documents = source_documents result,
      id_field = toString (Date_now c), question = q, timestamp = new_Date c\<rparr>"

definition askQuestion_settle ::
  "clock \<Rightarrow> string \<Rightarrow> js_error + QuestionResponse \<Rightarrow> question_state \<Rightarrow>
   question_state \<times> (js_error + QuestionResponse)" where
  "askQuestion_settle c q r s =
     (case r of
        Inr result \<Rightarrow>
          ((s\<lparr>history := newEntry c q result # history s\<rparr>)\<lparr>loading := False\<rparr>, Inr result)
      | Inl err \<Rightarrow>
          (let errorMessage = (if instanceof_ApiError err then err_message err
                               else ''Question failed'')
           in ((s\<lparr>error_q := Some errorMessage\<rparr>)\<lparr>loading := False\<rparr>, Inl err)))"

definition askQuestion_hook ::
  "QuestionResponse env \<Rightarrow> clock \<Rightarrow> string \<Rightarrow> question_state \<Rightarrow>
   (question_state \<times> (js_error + QuestionResponse)) \<times> request list" where
  "askQuestion_hook e c q s =
     (let (r, reqs) = api_askQuestion e q
      in (askQuestion_settle c q r (askQuestion_begin s), reqs))"

definition clearHistory :: "question_state \<Rightarrow> question_state" where
  "clearHistory s = s\<lparr>history := []\<rparr>"

section \<open>components/QuestionInterface.tsx\<close>

text \<open>
  \<open>String.prototype.trim\<close> removes white space and line terminators from both ends.
  Among the code units 0..255 these are tab, line feed, vertical tab, form feed, carriage
  return, space and no-break space.
\<close>

definition is_white_space :: "char \<Rightarrow> bool" where
  "is_white_space c = ((of_char c :: nat) \<in> {9, 10, 11, 12, 13, 32, 160})"

definition trim :: "string \<Rightarrow> string" where
  "trim s = rev (dropWhile is_white_space (rev (dropWhile is_white_space s)))"

text \<open>The component's own state \<open>question\<close> (the text of the input) and the state of
  the hook it uses.\<close>

record question_interface =
  question_input :: string
  hook :: question_state

text \<open>
  \<open>handleSubmit\<close>: the guard returns before anything is called. Otherwise the trimmed
  text goes to the hook; the input is emptied only when the hook's call fulfils, and
  a failure is swallowed by the empty \<open>catch\<close>.
\<close>

definition handleSubmit ::
  "QuestionResponse env \<Rightarrow> clock \<Rightarrow> bool \<Rightarrow> question_interface \<Rightarrow>
   question_interface \<times> request list" where
  "handleSubmit e c disabled st =
     (if trim (question_input st) = [] \<or> loading (hook st) \<or> disabled then (st, [])
      else
        (let ((h, r), reqs) = askQuestion_hook e c (trim (question_input st)) (hook st)
         in (case r of
               Inr result \<Rightarrow> (\<lparr>question_input = [], hook = h\<rparr>, reqs)
             | Inl err \<Rightarrow> (st\<lparr>hook := h\<rparr>, reqs))))"

section \<open>components/FileUpload.tsx\<close>

text \<open>
  The widget's state is the state of its hook together with the state \<open>'p\<close> of the
  parent, which the callback \<open>onUploadSuccess\<close> updates.
\<close>

definition handleFileSelect ::
  "('u \<Rightarrow> 'p \<Rightarrow> 'p) \<Rightarrow> 'u env \<Rightarrow> File \<Rightarrow> 'u upload_state \<times> 'p \<Rightarrow>
   ('u upload_state \<times> 'p) \<times> request list" where
  "handleFileSelect onUploadSuccess e f st =
     (let ((s, r), reqs) = uploadFile e f (fst st)
      in (case r of
            Inr result \<Rightarrow> ((s, onUploadSuccess result (snd st)), reqs)
          | Inl err \<Rightarrow> ((s, snd st), reqs)))"

text \<open>\<open>handleDrop\<close> receives \<open>e.dataTransfer.files\<close>.\<close>

definition handleDrop ::
  "('u \<Rightarrow> 'p \<Rightarrow> 'p) \<Rightarrow> 'u env \<Rightarrow> File list \<Rightarrow> 'u upload_state \<times> 'p \<Rightarrow>
   ('u upload_state \<times> 'p) \<times> request list" where
  "handleDrop onUploadSuccess e files st =
     (case find (\<lambda>f. type f = ''application/pdf'') files of
        Some pdfFile \<Rightarrow> handleFileSelect onUploadSuccess e pdfFile st
      | None \<Rightarrow> (st, []))"

text \<open>\<open>handleFileInput\<close> receives \<open>e.target.files\<close>, which may be \<open>null\<close>; \<open>files?.[0]\<close>
  is \<open>undefined\<close> for \<open>null\<close> and for an empty list.\<close>

definition handleFileInput ::
  "('u \<Rightarrow> 'p \<Rightarrow> 'p) \<Rightarrow> 'u env \<Rightarrow> File list option \<Rightarrow> 'u upload_state \<times> 'p \<Rightarrow>
   ('u upload_state \<times> 'p) \<times> request list" where
  "handleFileInput onUploadSuccess e files st =
     (case files of
        None \<Rightarrow> (st, [])
      | Some [] \<Rightarrow> (st, [])
      | Some (f # rest) \<Rightarrow> handleFileSelect onUploadSuccess e f st)"

section \<open>Sequences of calls on the question hook\<close>

text \<open>
  The two functions the question hook exposes, as operations run one after the other,
  each call settled before the next is made. An \<open>Ask\<close> carries what the network and the
  clock give to that call.
\<close>

datatype question_op =
    Ask "QuestionResponse env" clock string
  | Clear

fun step :: "question_op \<Rightarrow> question_state \<Rightarrow> question_state" where
  "step (Ask e c q) s = fst (fst (askQuestion_hook e c q s))"
| "step Clear s = clearHistory s"

fun run :: "question_op list \<Rightarrow> question_state \<Rightarrow> question_state" where
  "run [] s = s"
| "run (x # xs) s = run xs (step x s)"

text \<open>An \<open>Ask\<close> whose call to the client fulfils, the question it asks, and the
  \<open>Date.now()\<close> readings of the fulfilled calls of a sequence, oldest first.\<close>

fun fulfils :: "question_op \<Rightarrow> bool" where
  "fulfils (Ask e c q) = (case fst (api_askQuestion e q) of Inr v \<Rightarrow> True | Inl err \<Rightarrow> False)"
| "fulfils Clear = False"

fun asked :: "question_op list \<Rightarrow> string list" where
  "asked [] = []"
| "asked (Ask e c q # xs) = q # asked xs"
| "asked (Clear # xs) = asked xs"

fun created :: "question_op list \<Rightarrow> int list" where
  "created [] = []"
| "created (Ask e c q # xs) =
     (if fulfils (Ask e c q) then Date_now c # created xs else created xs)"
| "created (Clear # xs) = created xs"

section \<open>Concrete environments for the examples\<close>

text \<open>A service that answers every request with the given status and body, a network
  that is down, and two readers of a body of the declared shape.\<close>

definition responding :: "nat \<Rightarrow> string \<Rightarrow> (string \<Rightarrow> string + 'a) \<Rightarrow> 'a env" where
  "responding st b parse =
     \<lparr>NEXT_PUBLIC_API_URL = None,
      fetch = (\<lambda>req. Resolved \<lparr>status = st, body_text = b\<rparr>),
      json = parse\<rparr>"

definition offline :: "(string \<Rightarrow> string + 'a) \<Rightarrow> 'a env" where
  "offline parse =
     \<lparr>NEXT_PUBLIC_API_URL = None, fetch = (\<lambda>req. Rejected ''Failed to fetch''),
      json = parse\<rparr>"

definition read_answer :: "string \<Rightarrow> string + QuestionResponse" where
  "read_answer b = Inr \<lparr>answer = b, source_documents = [''p.3'']\<rparr>"

definition read_upload :: "string \<Rightarrow> string + nat UploadResponse" where
  "read_upload b =
     Inr \<lparr>message = b, filename = ''a.pdf'', chunks_created = 12, file_size_mb = 2\<rparr>"

definition a_pdf :: File where
  "a_pdf = \<lparr>name = ''a.pdf'', type = ''application/pdf'', size = 1400000\<rparr>"

definition notes_txt :: File where
  "notes_txt = \<lparr>name = ''notes.txt'', type = ''text/plain'', size = 120\<rparr>"

section \<open>What the client settles to\<close>

text \<open>The client never throws an \<open>ApiError\<close>, and each call passes exactly one request
  to \<open>fetch\<close>.\<close>

lemma settle_response_not_ApiError:
  "settle_response e failed r = Inl err \<Longrightarrow> \<not> instanceof_ApiError err"
  by (auto simp: settle_response_def split: fetch_result.splits if_splits sum.splits)

lemma api_uploadPdf_not_ApiError:
  "fst (api_uploadPdf e f) = Inl err \<Longrightarrow> \<not> instanceof_ApiError err"
  by (simp add: api_uploadPdf_def Let_def settle_response_not_ApiError)

lemma api_askQuestion_not_ApiError:
  "fst (api_askQuestion e q) = Inl err \<Longrightarrow> \<not> instanceof_ApiError err"
  by (simp add: api_askQuestion_def Let_def settle_response_not_ApiError)

lemma api_uploadPdf_requests: "snd (api_uploadPdf e f) = [uploadPdf_request e f]"
  by (simp add: api_uploadPdf_def Let_def)

lemma api_askQuestion_requests: "snd (api_askQuestion e q) = [askQuestion_request e q]"
  by (simp add: api_askQuestion_def Let_def)

lemma uploadFile_Inr:
  "fst (api_uploadPdf e f) = Inr v \<Longrightarrow>
   uploadFile e f s =
     ((\<lparr>uploading = False, uploadResult = Some v, error = None\<rparr>, Inr v),
      [uploadPdf_request e f])"
  using api_uploadPdf_requests [of e f]
  by (cases "api_uploadPdf e f")
     (simp add: uploadFile_def uploadFile_settle_def uploadFile_begin_def)

lemma uploadFile_Inl:
  "fst (api_uploadPdf e f) = Inl err \<Longrightarrow>
   uploadFile e f s =
     ((\<lparr>uploading = False, uploadResult = uploadResult s, error = Some ''Upload failed''\<rparr>,
       Inl err), [uploadPdf_request e f])"
  using api_uploadPdf_requests [of e f] api_uploadPdf_not_ApiError [of e f err]
  by (cases "api_uploadPdf e f")
     (simp add: uploadFile_def uploadFile_settle_def uploadFile_begin_def)

lemma askQuestion_hook_Inr:
  "fst (api_askQuestion e q) = Inr v \<Longrightarrow>
   askQuestion_hook e c q s =
     ((\<lparr>loading = False, history = newEntry c q v # history s, error_q = None\<rparr>, Inr v),
      [askQuestion_request e q])"
  using api_askQuestion_requests [of e q]
  by (cases "api_askQuestion e q")
     (simp add: askQuestion_hook_def askQuestion_settle_def askQuestion_begin_def)

lemma askQuestion_hook_Inl:
  "fst (api_askQuestion e q) = Inl err \<Longrightarrow>
   askQuestion_hook e c q s =
     ((\<lparr>loading = False, history = history s, error_q = Some ''Question failed''\<rparr>,
       Inl err), [askQuestion_request e q])"
  using api_askQuestion_requests [of e q] api_askQuestion_not_ApiError [of e q err]
  by (cases "api_askQuestion e q")
     (simp add: askQuestion_hook_def askQuestion_settle_def askQuestion_begin_def)

section \<open>Decimal rendering is injective\<close>

lemma digits_eq:
  "digits n = (if n < 10 then [digit n] else digits (n div 10) @ [digit (n mod 10)])"
  by (rule digits.simps)

lemma digits_not_Nil: "digits n \<noteq> []"
  by (subst digits_eq) simp

lemma digit_inj:
  assumes "a < 10" "b < 10" "digit a = digit b"
  shows "a = b"
proof -
  have "distinct ''0123456789''" by simp
  moreover have "a < length ''0123456789''" "b < length ''0123456789''"
    using assms(1,2) by simp_all
  ultimately show ?thesis
    using assms(3) unfolding digit_def by (simp only: nth_eq_iff_index_eq)
qed

lemma digit_not_minus: "a < 10 \<Longrightarrow> digit a \<noteq> CHR ''-''"
proof -
  assume "a < 10"
  then have "a < length ''0123456789''" by simp
  then have "''0123456789'' ! a \<in> set ''0123456789''" by (rule nth_mem)
  then show ?thesis unfolding digit_def by auto
qed

lemma minus_notin_digits: "CHR ''-'' \<notin> set (digits n)"
proof (induction n rule: digits.induct)
  case (1 n)
  show ?case
  proof (cases "n < 10")
    case True
    then show ?thesis
      using digit_not_minus [of n] by (subst digits_eq) auto
  next
    case False
    have "n mod 10 < 10" by simp
    then have "digit (n mod 10) \<noteq> CHR ''-''"
      by (rule digit_not_minus)
    with False "1.IH" show ?thesis
      by (subst digits_eq) auto
  qed
qed

lemma digits_inj: "digits n = digits m \<Longrightarrow> n = m"
proof (induction n arbitrary: m rule: digits.induct)
  case (1 n)
  show ?case
  proof (cases "n < 10")
    case n: True
    show ?thesis
    proof (cases "m < 10")
      case True
      with n "1.prems" show ?thesis
        using digit_inj [of n m]
        by (simp add: digits_eq [of n] digits_eq [of m])
    next
      case False
      with n "1.prems" digits_not_Nil [of "m div 10"] show ?thesis
        by (simp add: digits_eq [of n] digits_eq [of m])
    qed
  next
    case n: False
    show ?thesis
    proof (cases "m < 10")
      case True
      with n "1.prems" digits_not_Nil [of "n div 10"] show ?thesis
        by (simp add: digits_eq [of n] digits_eq [of m])
    next
      case False
      with n "1.prems" have d: "digits (n div 10) = digits (m div 10)"
        and c: "digit (n mod 10) = digit (m mod 10)"
        by (simp_all add: digits_eq [of n] digits_eq [of m])
      from "1.IH" [OF n d] have "n div 10 = m div 10" .
      moreover have "n mod 10 = m mod 10"
        using digit_inj [OF _ _ c] by simp
      ultimately show ?thesis
        by (metis div_mult_mod_eq)
    qed
  qed
qed

lemma toString_inj: "toString i = toString j \<Longrightarrow> i = j"
proof -
  assume eq: "toString i = toString j"
  have hd_digits: "\<And>n. hd (digits n) \<noteq> CHR ''-''"
    using minus_notin_digits digits_not_Nil by (metis hd_in_set)
  show "i = j"
  proof (cases "i < 0")
    case i: True
    show ?thesis
    proof (cases "j < 0")
      case True
      with i eq have "digits (nat (- i)) = digits (nat (- j))"
        by (simp add: toString_def)
      then have "nat (- i) = nat (- j)" by (rule digits_inj)
      with i True show ?thesis by simp
    next
      case False
      with i eq have "CHR ''-'' # digits (nat (- i)) = digits (nat j)"
        by (simp add: toString_def)
      then have "hd (digits (nat j)) = CHR ''-''" by (metis list.sel(1))
      with hd_digits show ?thesis by blast
    qed
  next
    case i: False
    show ?thesis
    proof (cases "j < 0")
      case True
      with i eq have "digits (nat i) = CHR ''-'' # digits (nat (- j))"
        by (simp add: toString_def)
      then have "hd (digits (nat i)) = CHR ''-''" by (metis list.sel(1))
      with hd_digits show ?thesis by blast
    next
      case False
      with i eq have "digits (nat i) = digits (nat j)"
        by (simp add: toString_def)
      then have "nat i = nat j" by (rule digits_inj)
      with i False show ?thesis by simp
    qed
  qed
qed

section \<open>The client on the concrete environments\<close>

lemma api_uploadPdf_responding_200:
  "fst (api_uploadPdf (responding 200 b read_upload) f) =
     Inr \<lparr>message = b, filename = ''a.pdf'', chunks_created = 12, file_size_mb = 2\<rparr>"
  by (simp add: api_uploadPdf_def settle_response_def responding_def ok_def read_upload_def)

lemma api_uploadPdf_responding_413:
  "fst (api_uploadPdf (responding 413 b parse) f) = Inl (Error ''Upload failed'')"
  by (simp add: api_uploadPdf_def settle_response_def responding_def ok_def)

lemma api_uploadPdf_responding_500:
  "fst (api_uploadPdf (responding 500 b parse) f) = Inl (Error ''Upload failed'')"
  by (simp add: api_uploadPdf_def settle_response_def responding_def ok_def)

lemma api_askQuestion_responding_200:
  "fst (api_askQuestion (responding 200 b read_answer) q) =
     Inr \<lparr>answer = b, source_documents = [''p.3'']\<rparr>"
  by (simp add: api_askQuestion_def settle_response_def responding_def ok_def read_answer_def)

lemma api_askQuestion_responding_500:
  "fst (api_askQuestion (responding 500 b parse) q) = Inl (Error ''Question failed'')"
  by (simp add: api_askQuestion_def settle_response_def responding_def ok_def)

lemma api_askQuestion_offline:
  "fst (api_askQuestion (offline parse) q) = Inl (TypeError ''Failed to fetch'')"
  by (simp add: api_askQuestion_def settle_response_def offline_def)

section \<open>Non-2xx responses\<close>

text \<open>
  C1. The claim: on a non-2xx response the client fails with a typed error carrying the
  HTTP status and the server-supplied message, and the upload hook stores that message.
  Evaluated on a 413 response whose body is the text \<open>File too large\<close>: the client
  throws the plain \<open>Error\<close> with the fixed message \<open>Upload failed\<close>, not an \<open>ApiError\<close>
  with status 413 and the server's text, and the hook stores \<open>Upload failed\<close>. The
  question operation does the same on a 500 response.
\<close>

theorem uploadPdf_413_loses_status_and_message:
  "fst (api_uploadPdf (responding 413 ''File too large'' read_upload) a_pdf)
     = Inl (Error ''Upload failed'')
   \<and> fst (api_uploadPdf (responding 413 ''File too large'' read_upload) a_pdf)
     \<noteq> Inl (ApiError 413 ''File too large'')
   \<and> error (fst (fst (uploadFile (responding 413 ''File too large'' read_upload) a_pdf
        useFileUpload))) = Some ''Upload failed''
   \<and> fst (api_askQuestion (responding 500 ''RAG system not initialised'' read_answer) ''Q1'')
     = Inl (Error ''Question failed'')"
  by (simp add: api_uploadPdf_responding_413 uploadFile_Inl api_askQuestion_responding_500)

section \<open>The upload hook\<close>



section \<open>The hooks by cases on what the client settles to\<close>

lemma askQuestion_hook_cases:
  "askQuestion_hook e c q s =
     (case fst (api_askQuestion e q) of
        Inr v \<Rightarrow>
          ((\<lparr>loading = False, history = newEntry c q v # history s, error_q = None\<rparr>, Inr v),
           [askQuestion_request e q])
      | Inl err \<Rightarrow>
          ((\<lparr>loading = False, history = history s, error_q = Some ''Question failed''\<rparr>,
            Inl err), [askQuestion_request e q]))"
  by (cases "fst (api_askQuestion e q)") (simp_all add: askQuestion_hook_Inr askQuestion_hook_Inl)

lemma uploadFile_cases:
  "uploadFile e f s =
     (case fst (api_uploadPdf e f) of
        Inr v \<Rightarrow>
          ((\<lparr>uploading = False, uploadResult = Some v, error = None\<rparr>, Inr v),
           [uploadPdf_request e f])
      | Inl err \<Rightarrow>
          ((\<lparr>uploading = False, uploadResult = uploadResult s, error = Some ''Upload failed''\<rparr>,
            Inl err), [uploadPdf_request e f]))"
  by (cases "fst (api_uploadPdf e f)") (simp_all add: uploadFile_Inr uploadFile_Inl)

lemma step_Ask_fulfils:
  "fst (api_askQuestion e q) = Inr v \<Longrightarrow>
   step (Ask e c q) s = \<lparr>loading = False, history = newEntry c q v # history s, error_q = None\<rparr>"
  by (simp add: askQuestion_hook_Inr)

lemma question_newEntry: "question (newEntry c q v) = q"
  by (simp add: newEntry_def)

lemma run_fulfilled:
  "list_all fulfils ops \<Longrightarrow>
   \<exists>new. history (run ops s) = new @ history s \<and> map question new = rev (asked ops)
     \<and> length new = length ops"
proof (induction ops arbitrary: s)
  case Nil
  then show ?case by simp
next
  case (Cons x xs)
  from Cons.prems have x: "fulfils x" and xs: "list_all fulfils xs" by simp_all
  from x obtain e c q where xa: "x = Ask e c q" by (cases x) simp_all
  have "\<exists>v. fst (api_askQuestion e q) = Inr v"
    using x xa by (cases "fst (api_askQuestion e q)") simp_all
  then obtain v where v: "fst (api_askQuestion e q) = Inr v" ..
  from Cons.IH [OF xs, of "step x s"] obtain new where
    new: "history (run xs (step x s)) = new @ history (step x s)"
      "map question new = rev (asked xs)" "length new = length xs"
    by blast
  have "history (step x s) = newEntry c q v # history s"
    using xa step_Ask_fulfils [OF v, of c s] by simp
  with new xa have "history (run (x # xs) s) = (new @ [newEntry c q v]) @ history s"
    "map question (new @ [newEntry c q v]) = rev (asked (x # xs))"
    "length (new @ [newEntry c q v]) = length (x # xs)"
    by (simp_all add: question_newEntry)
  then show ?case by blast
qed

section \<open>The question hook: order of the history\<close>

text \<open>
  C3. For every sequence of calls of \<open>askQuestion\<close> that all fulfil, run one after the
  other from any state: the history afterwards is a list of new entries, one per call,
  in front of the history before, and the questions of the new entries are the asked
  questions in reverse order of asking (newest first). After asking Q1 then Q2 the
  entry at index 0 has question Q2 and the entry at index 1 has question Q1.
\<close>
theorem askQuestion_newest_first:
  "list_all fulfils ops \<Longrightarrow>
   (\<exists>new. history (run ops s) = new @ history s \<and> length new = length ops
      \<and> map question new = rev (asked ops))
   \<and> map question (history (run ops s)) = rev (asked ops) @ map question (history s)"
proof -
  assume "list_all fulfils ops"
  then obtain new where new: "history (run ops s) = new @ history s"
    "map question new = rev (asked ops)" "length new = length ops"
    using run_fulfilled by blast
  then have "map question (history (run ops s)) = rev (asked ops) @ map question (history s)"
    by simp
  with new show ?thesis by blast
qed

theorem askQuestion_newest_first_witness:
  "list_all fulfils
     [Ask (responding 200 ''A1'' read_answer) \<lparr>Date_now = 1000, new_Date = 1000\<rparr> ''Q1'',
      Ask (responding 200 ''A2'' read_answer) \<lparr>Date_now = 2000, new_Date = 2000\<rparr> ''Q2'']
   \<and> question (history (run
       [Ask (responding 200 ''A1'' read_answer) \<lparr>Date_now = 1000, new_Date = 1000\<rparr> ''Q1'',
        Ask (responding 200 ''A2'' read_answer) \<lparr>Date_now = 2000, new_Date = 2000\<rparr> ''Q2'']
       useQuestions) ! 0) = ''Q2''
   \<and> question (history (run
       [Ask (responding 200 ''A1'' read_answer) \<lparr>Date_now = 1000, new_Date = 1000\<rparr> ''Q1'',
        Ask (responding 200 ''A2'' read_answer) \<lparr>Date_now = 2000, new_Date = 2000\<rparr> ''Q2'']
       useQuestions) ! 1) = ''Q1''
   \<and> length (history (run
       [Ask (responding 200 ''A1'' read_answer) \<lparr>Date_now = 1000, new_Date = 1000\<rparr> ''Q1'',
        Ask (responding 200 ''A2'' read_answer) \<lparr>Date_now = 2000, new_Date = 2000\<rparr> ''Q2'']
       useQuestions)) = 2"
  using askQuestion_newest_first
    [of "[Ask (responding 200 ''A1'' read_answer) \<lparr>Date_now = 1000, new_Date = 1000\<rparr> ''Q1'',
          Ask (responding 200 ''A2'' read_answer) \<lparr>Date_now = 2000, new_Date = 2000\<rparr> ''Q2'']"
        useQuestions]
  by (simp add: askQuestion_hook_cases api_askQuestion_responding_200 question_newEntry
      useQuestions_def)

section \<open>The question hook: a failed call\<close>

text \<open>
  C9. If the client throws in a call of \<open>askQuestion\<close>, the history after the call is
  the history before it: the part before the \<open>await\<close> sets \<open>loading\<close> and leaves the
  history alone, and the settled state is the state before the call with only
  \<open>loading\<close> (false) and the error string set; the thrown value reaches the caller.
\<close>
theorem askQuestion_failure_keeps_history:
  "fst (api_askQuestion e q) = Inl err \<Longrightarrow>
   history (fst (fst (askQuestion_hook e c q s))) = history s
   \<and> fst (fst (askQuestion_hook e c q s))
       = s\<lparr>loading := False, error_q := Some ''Question failed''\<rparr>
   \<and> snd (fst (askQuestion_hook e c q s)) = Inl err
   \<and> loading (askQuestion_begin s) \<and> history (askQuestion_begin s) = history s"
  by (simp add: askQuestion_hook_Inl askQuestion_begin_def)

theorem askQuestion_failure_keeps_history_witness:
  "fst (api_askQuestion (offline read_answer) ''Q2'') = Inl (TypeError ''Failed to fetch'')
   \<and> history (fst (fst (askQuestion_hook (offline read_answer)
        \<lparr>Date_now = 3000, new_Date = 3000\<rparr> ''Q2''
        (run [Ask (responding 200 ''A1'' read_answer) \<lparr>Date_now = 1000, new_Date = 1000\<rparr> ''Q1'']
           useQuestions))))
     = [newEntry \<lparr>Date_now = 1000, new_Date = 1000\<rparr> ''Q1''
          \<lparr>answer = ''A1'', source_documents = [''p.3'']\<rparr>]"
  using askQuestion_failure_keeps_history
    [of "offline read_answer" "''Q2''" "TypeError ''Failed to fetch''"
        "\<lparr>Date_now = 3000, new_Date = 3000\<rparr>"
        "run [Ask (responding 200 ''A1'' read_answer) \<lparr>Date_now = 1000, new_Date = 1000\<rparr> ''Q1'']
           useQuestions"]
  by (simp add: askQuestion_hook_cases api_askQuestion_offline api_askQuestion_responding_200
      useQuestions_def)

section \<open>The stored error does not depend on the response\<close>

text \<open>
  C10. For any two failed runs of the upload hook, whatever the environments (status
  codes, bodies, network failures), files and states, both runs store the same error
  string \<open>Upload failed\<close>; for any two failed runs of the question hook both store
  \<open>Question failed\<close>; and the value thrown is never an \<open>ApiError\<close>, so the hooks'
  \<open>instanceof ApiError\<close> branch is not taken.
\<close>
theorem stored_error_independent_of_response:
  "(snd (fst (uploadFile (e1 :: 'u env) f1 s1)) = Inl err1
      \<and> snd (fst (uploadFile (e2 :: 'u env) f2 s2)) = Inl err2
      \<longrightarrow> error (fst (fst (uploadFile e1 f1 s1))) = Some ''Upload failed''
        \<and> error (fst (fst (uploadFile e2 f2 s2))) = Some ''Upload failed''
        \<and> \<not> instanceof_ApiError err1 \<and> \<not> instanceof_ApiError err2)
   \<and> (snd (fst (askQuestion_hook d1 c1 q1 t1)) = Inl err3
        \<and> snd (fst (askQuestion_hook d2 c2 q2 t2)) = Inl err4
      \<longrightarrow> error_q (fst (fst (askQuestion_hook d1 c1 q1 t1))) = Some ''Question failed''
        \<and> error_q (fst (fst (askQuestion_hook d2 c2 q2 t2))) = Some ''Question failed''
        \<and> \<not> instanceof_ApiError err3 \<and> \<not> instanceof_ApiError err4)"
proof -
  have up: "error (fst (fst (uploadFile e f s))) = Some ''Upload failed''
      \<and> \<not> instanceof_ApiError err"
    if "snd (fst (uploadFile e f s)) = Inl err"
    for e :: "'u env" and f s err
  proof -
    from that have "fst (api_uploadPdf e f) = Inl err"
      by (simp add: uploadFile_cases split: sum.splits)
    then show ?thesis
      by (simp add: uploadFile_Inl api_uploadPdf_not_ApiError)
  qed
  have ask: "error_q (fst (fst (askQuestion_hook e c q s))) = Some ''Question failed''
      \<and> \<not> instanceof_ApiError err"
    if "snd (fst (askQuestion_hook e c q s)) = Inl err" for e c q s err
  proof -
    from that have "fst (api_askQuestion e q) = Inl err"
      by (simp add: askQuestion_hook_cases split: sum.splits)
    then show ?thesis
      by (simp add: askQuestion_hook_Inl api_askQuestion_not_ApiError)
  qed
  show ?thesis
    using up [of e1 f1 s1 err1] up [of e2 f2 s2 err2]
      ask [of d1 c1 q1 t1 err3] ask [of d2 c2 q2 t2 err4]
    by blast
qed

theorem stored_error_independent_of_response_witness:
  "snd (fst (uploadFile (responding 413 ''File too large'' read_upload) a_pdf useFileUpload))
     = Inl (Error ''Upload failed'')
   \<and> snd (fst (uploadFile (responding 500 ''Internal error'' read_upload) notes_txt useFileUpload))
     = Inl (Error ''Upload failed'')
   \<and> error (fst (fst (uploadFile (responding 413 ''File too large'' read_upload) a_pdf
        useFileUpload))) = Some ''Upload failed''
   \<and> error (fst (fst (uploadFile (responding 500 ''Internal error'' read_upload) notes_txt
        useFileUpload))) = Some ''Upload failed''
   \<and> snd (fst (askQuestion_hook (responding 500 ''No document'' read_answer)
        \<lparr>Date_now = 1000, new_Date = 1000\<rparr> ''Q1'' useQuestions))
     = Inl (Error ''Question failed'')
   \<and> snd (fst (askQuestion_hook (offline read_answer)
        \<lparr>Date_now = 2000, new_Date = 2000\<rparr> ''Q2'' useQuestions))
     = Inl (TypeError ''Failed to fetch'')
   \<and> error_q (fst (fst (askQuestion_hook (responding 500 ''No document'' read_answer)
        \<lparr>Date_now = 1000, new_Date = 1000\<rparr> ''Q1'' useQuestions))) = Some ''Question failed''
   \<and> error_q (fst (fst (askQuestion_hook (offline read_answer)
        \<lparr>Date_now = 2000, new_Date = 2000\<rparr> ''Q2'' useQuestions))) = Some ''Question failed''"
  using stored_error_independent_of_response
    [of "responding 413 ''File too large'' read_upload" a_pdf useFileUpload
        "Error ''Upload failed''"
        "responding 500 ''Internal error'' read_upload" notes_txt useFileUpload
        "Error ''Upload failed''"
        "responding 500 ''No document'' read_answer" "\<lparr>Date_now = 1000, new_Date = 1000\<rparr>"
        "''Q1''" useQuestions "Error ''Question failed''"
        "offline read_answer" "\<lparr>Date_now = 2000, new_Date = 2000\<rparr>" "''Q2''" useQuestions
        "TypeError ''Failed to fetch''"]
  by (simp add: uploadFile_cases askQuestion_hook_cases api_uploadPdf_responding_413
      api_uploadPdf_responding_500 api_askQuestion_responding_500 api_askQuestion_offline)

section \<open>The question form\<close>

lemma trim_blank: "trim ''   '' = []"
  by (simp add: trim_def is_white_space_def)

lemma trim_Q1: "trim '' Q1 '' = ''Q1''"
  by (simp add: trim_def is_white_space_def)

text \<open>
  C4. When \<open>handleSubmit\<close> runs with input that is blank after trimming, or while
  \<open>loading\<close> is true, or while the interface is disabled, it returns the state it was
  given, hook state included, and passes no request to \<open>fetch\<close>. When none of the three
  holds and the client fulfils, the history afterwards is exactly one new entry, for the
  trimmed input, in front of the history before, and exactly one request was made.
\<close>

theorem handleSubmit_guarded:
  "(trim (question_input st) = [] \<or> loading (hook st) \<or> disabled
      \<longrightarrow> handleSubmit e c disabled st = (st, []))
   \<and> (\<not> (trim (question_input st) = [] \<or> loading (hook st) \<or> disabled)
        \<and> fst (api_askQuestion e (trim (question_input st))) = Inr v
      \<longrightarrow> history (hook (fst (handleSubmit e c disabled st)))
            = newEntry c (trim (question_input st)) v # history (hook st)
        \<and> snd (handleSubmit e c disabled st)
            = [askQuestion_request e (trim (question_input st))])"
  by (simp add: handleSubmit_def askQuestion_hook_cases)

theorem handleSubmit_guarded_witness:
  "handleSubmit (responding 200 ''A1'' read_answer) \<lparr>Date_now = 1000, new_Date = 1000\<rparr> False
      \<lparr>question_input = ''   '', hook = useQuestions\<rparr>
     = (\<lparr>question_input = ''   '', hook = useQuestions\<rparr>, [])
   \<and> handleSubmit (responding 200 ''A1'' read_answer) \<lparr>Date_now = 1000, new_Date = 1000\<rparr> False
      \<lparr>question_input = '' Q1 '', hook = useQuestions\<lparr>loading := True\<rparr>\<rparr>
     = (\<lparr>question_input = '' Q1 '', hook = useQuestions\<lparr>loading := True\<rparr>\<rparr>, [])
   \<and> handleSubmit (responding 200 ''A1'' read_answer) \<lparr>Date_now = 1000, new_Date = 1000\<rparr> True
      \<lparr>question_input = '' Q1 '', hook = useQuestions\<rparr>
     = (\<lparr>question_input = '' Q1 '', hook = useQuestions\<rparr>, [])
   \<and> history (hook (fst (handleSubmit (responding 200 ''A1'' read_answer)
        \<lparr>Date_now = 1000, new_Date = 1000\<rparr> False
        \<lparr>question_input = '' Q1 '', hook = useQuestions\<rparr>)))
     = [newEntry \<lparr>Date_now = 1000, new_Date = 1000\<rparr> ''Q1''
          \<lparr>answer = ''A1'', source_documents = [''p.3'']\<rparr>]
   \<and> length (snd (handleSubmit (responding 200 ''A1'' read_answer)
        \<lparr>Date_now = 1000, new_Date = 1000\<rparr> False
        \<lparr>question_input = '' Q1 '', hook = useQuestions\<rparr>)) = 1"
  using handleSubmit_guarded
      [of "\<lparr>question_input = ''   '', hook = useQuestions\<rparr>" False
          "responding 200 ''A1'' read_answer" "\<lparr>Date_now = 1000, new_Date = 1000\<rparr>"]
    handleSubmit_guarded
      [of "\<lparr>question_input = '' Q1 '', hook = useQuestions\<lparr>loading := True\<rparr>\<rparr>" False
          "responding 200 ''A1'' read_answer" "\<lparr>Date_now = 1000, new_Date = 1000\<rparr>"]
    handleSubmit_guarded
      [of "\<lparr>question_input = '' Q1 '', hook = useQuestions\<rparr>" True
          "responding 200 ''A1'' read_answer" "\<lparr>Date_now = 1000, new_Date = 1000\<rparr>"]
    handleSubmit_guarded
      [of "\<lparr>question_input = '' Q1 '', hook = useQuestions\<rparr>" False
          "responding 200 ''A1'' read_answer" "\<lparr>Date_now = 1000, new_Date = 1000\<rparr>"
          "\<lparr>answer = ''A1'', source_documents = [''p.3'']\<rparr>"]
  by (simp add: trim_blank trim_Q1 api_askQuestion_responding_200 useQuestions_def)

section \<open>Clearing and resetting\<close>

text \<open>
  C5, as stated, fails on the question hook: after a fulfilled question and a failed
  one, \<open>clearHistory\<close> empties the history but the error string stays, so the state is
  not the initial one.
\<close>

theorem clearHistory_keeps_error_counterexample:
  "run [Ask (responding 200 ''A1'' read_answer) \<lparr>Date_now = 1000, new_Date = 1000\<rparr> ''Q1'',
        Ask (offline read_answer) \<lparr>Date_now = 2000, new_Date = 2000\<rparr> ''Q2''] useQuestions
     = \<lparr>loading = False,
        history = [newEntry \<lparr>Date_now = 1000, new_Date = 1000\<rparr> ''Q1''
                     \<lparr>answer = ''A1'', source_documents = [''p.3'']\<rparr>],
        error_q = Some ''Question failed''\<rparr>
   \<and> clearHistory
       (run [Ask (responding 200 ''A1'' read_answer) \<lparr>Date_now = 1000, new_Date = 1000\<rparr> ''Q1'',
             Ask (offline read_answer) \<lparr>Date_now = 2000, new_Date = 2000\<rparr> ''Q2''] useQuestions)
     \<noteq> useQuestions
   \<and> error_q (clearHistory
       (run [Ask (responding 200 ''A1'' read_answer) \<lparr>Date_now = 1000, new_Date = 1000\<rparr> ''Q1'',
             Ask (offline read_answer) \<lparr>Date_now = 2000, new_Date = 2000\<rparr> ''Q2''] useQuestions))
     = Some ''Question failed''"
  by (simp add: askQuestion_hook_cases api_askQuestion_responding_200 api_askQuestion_offline
      useQuestions_def clearHistory_def)

text \<open>
  C5, amended. \<open>clearHistory\<close> empties the history, whatever the state, and leaves
  \<open>loading\<close> and the error string as they were; the state it gives is the initial one
  exactly when \<open>loading\<close> was false and no error was stored. \<open>reset\<close> clears
  \<open>uploadResult\<close> and \<open>error\<close> together and leaves \<open>uploading\<close> as it was; the state it
  gives is the initial one exactly when \<open>uploading\<close> was false.
\<close>

theorem clearHistory_reset_effect:
  "history (clearHistory s) = [] \<and> loading (clearHistory s) = loading s
   \<and> error_q (clearHistory s) = error_q s
   \<and> (clearHistory s = useQuestions) = (\<not> loading s \<and> error_q s = None)
   \<and> uploadResult (reset u) = None \<and> error (reset u) = None
   \<and> uploading (reset u) = uploading u
   \<and> (reset u = useFileUpload) = (\<not> uploading u)"
  by (cases s, cases u) (auto simp: clearHistory_def reset_def useQuestions_def useFileUpload_def)

section \<open>Identifiers of history entries\<close>

lemma run_snoc: "run (xs @ [x]) s = step x (run xs s)"
  by (induction xs arbitrary: s) simp_all

lemma created_snoc: "created (xs @ [x]) = created xs @ created [x]"
  by (induction xs rule: created.induct) simp_all

lemma history_step:
  "history (step x s) = [] \<or> history (step x s) = history s
   \<or> (\<exists>entry. history (step x s) = entry # history s)"
proof (cases x)
  case (Ask e c q)
  then show ?thesis
    by (cases "fst (api_askQuestion e q)") (simp_all add: askQuestion_hook_cases)
next
  case Clear
  then show ?thesis by (simp add: clearHistory_def)
qed

lemma ids_step:
  "map id_field (history (step x s)) = []
   \<or> (created [x] = [] \<and> map id_field (history (step x s)) = map id_field (history s))
   \<or> (\<exists>d. created [x] = [d]
        \<and> map id_field (history (step x s)) = toString d # map id_field (history s))"
proof (cases x)
  case (Ask e c q)
  then show ?thesis
    by (cases "fst (api_askQuestion e q)")
       (simp_all add: askQuestion_hook_cases newEntry_def)
next
  case Clear
  then show ?thesis by (simp add: clearHistory_def)
qed

lemma ids_reachable:
  "set (map id_field (history (run ops useQuestions))) \<subseteq> toString ` set (created ops)
   \<and> (distinct (created ops) \<longrightarrow> distinct (map id_field (history (run ops useQuestions))))"
proof (induction ops rule: rev_induct)
  case Nil
  then show ?case by (simp add: useQuestions_def)
next
  case (snoc x xs)
  let ?old = "map id_field (history (run xs useQuestions))"
  let ?new = "map id_field (history (step x (run xs useQuestions)))"
  from snoc.IH have sub: "set ?old \<subseteq> toString ` set (created xs)"
    and dis: "distinct (created xs) \<Longrightarrow> distinct ?old"
    by simp_all
  consider (empty) "?new = []"
    | (same) "created [x] = []" "?new = ?old"
    | (cons) d where "created [x] = [d]" "?new = toString d # ?old"
    using ids_step [of x "run xs useQuestions"] by auto
  then have "set ?new \<subseteq> toString ` set (created xs @ created [x])
      \<and> (distinct (created xs @ created [x]) \<longrightarrow> distinct ?new)"
  proof cases
    case empty
    then show ?thesis by simp
  next
    case same
    with sub dis show ?thesis by simp
  next
    case cons
    have "toString d \<notin> set ?old" if "d \<notin> set (created xs)"
    proof
      assume "toString d \<in> set ?old"
      with sub obtain d' where "d' \<in> set (created xs)" "toString d = toString d'"
        by blast
      with toString_inj [of d d'] that show False by simp
    qed
    with cons sub dis show ?thesis by auto
  qed
  then show ?case
    unfolding run_snoc created_snoc .
qed

lemma toString_1000: "toString 1000 = ''1000''"
  by (simp add: toString_def digits.simps digit_def)

lemma toString_1001: "toString 1001 = ''1001''"
  by (simp add: toString_def digits.simps digit_def)

text \<open>
  C6, as stated, fails: two fulfilled questions whose \<open>Date.now()\<close> readings are equal
  give two entries with the same identifier.
\<close>

theorem same_clock_reading_same_id_counterexample:
  "\<not> distinct (map id_field (history (run
       [Ask (responding 200 ''A1'' read_answer) \<lparr>Date_now = 1000, new_Date = 1000\<rparr> ''Q1'',
        Ask (responding 200 ''A2'' read_answer) \<lparr>Date_now = 1000, new_Date = 1000\<rparr> ''Q2'']
       useQuestions)))
   \<and> map question (history (run
       [Ask (responding 200 ''A1'' read_answer) \<lparr>Date_now = 1000, new_Date = 1000\<rparr> ''Q1'',
        Ask (responding 200 ''A2'' read_answer) \<lparr>Date_now = 1000, new_Date = 1000\<rparr> ''Q2'']
       useQuestions)) = [''Q2'', ''Q1'']"
  by (simp add: askQuestion_hook_cases api_askQuestion_responding_200 useQuestions_def
      newEntry_def)

text \<open>
  C6, amended. In the history reached from the initial state by any sequence of
  \<open>askQuestion\<close> and \<open>clearHistory\<close> calls, every identifier is the decimal rendering of
  the \<open>Date.now()\<close> reading of a fulfilled call; the identifiers are pairwise distinct
  whenever the readings of the fulfilled calls are pairwise distinct; and no operation
  changes an existing entry: after any operation the history is empty, or the history
  before, or one new entry in front of the history before.
\<close>

theorem ids_from_clock_entries_immutable:
  "set (map id_field (history (run ops useQuestions))) \<subseteq> toString ` set (created ops)
   \<and> (distinct (created ops) \<longrightarrow> distinct (map id_field (history (run ops useQuestions))))
   \<and> (history (step x s) = [] \<or> history (step x s) = history s
        \<or> (\<exists>entry. history (step x s) = entry # history s))"
  using ids_reachable [of ops] history_step [of x s] by blast

theorem ids_from_clock_entries_immutable_witness:
  "distinct (created
       [Ask (responding 200 ''A1'' read_answer) \<lparr>Date_now = 1000, new_Date = 1000\<rparr> ''Q1'',
        Ask (offline read_answer) \<lparr>Date_now = 1000, new_Date = 1000\<rparr> ''Q2'',
        Ask (responding 200 ''A3'' read_answer) \<lparr>Date_now = 1001, new_Date = 1002\<rparr> ''Q3''])
   \<and> distinct (map id_field (history (run
       [Ask (responding 200 ''A1'' read_answer) \<lparr>Date_now = 1000, new_Date = 1000\<rparr> ''Q1'',
        Ask (offline read_answer) \<lparr>Date_now = 1000, new_Date = 1000\<rparr> ''Q2'',
        Ask (responding 200 ''A3'' read_answer) \<lparr>Date_now = 1001, new_Date = 1002\<rparr> ''Q3'']
       useQuestions)))
   \<and> map id_field (history (run
       [Ask (responding 200 ''A1'' read_answer) \<lparr>Date_now = 1000, new_Date = 1000\<rparr> ''Q1'',
        Ask (offline read_answer) \<lparr>Date_now = 1000, new_Date = 1000\<rparr> ''Q2'',
        Ask (responding 200 ''A3'' read_answer) \<lparr>Date_now = 1001, new_Date = 1002\<rparr> ''Q3'']
       useQuestions)) = [''1001'', ''1000'']"
proof -
  let ?ops = "[Ask (responding 200 ''A1'' read_answer) \<lparr>Date_now = 1000, new_Date = 1000\<rparr> ''Q1'',
        Ask (offline read_answer) \<lparr>Date_now = 1000, new_Date = 1000\<rparr> ''Q2'',
        Ask (responding 200 ''A3'' read_answer) \<lparr>Date_now = 1001, new_Date = 1002\<rparr> ''Q3'']"
  have c: "created ?ops = [1000, 1001]"
    by (simp add: api_askQuestion_responding_200 api_askQuestion_offline)
  have h: "map id_field (history (run ?ops useQuestions)) = [toString 1001, toString 1000]"
    by (simp add: askQuestion_hook_cases api_askQuestion_responding_200
        api_askQuestion_offline useQuestions_def newEntry_def)
  from c have "distinct (created ?ops)" by simp
  moreover from this ids_from_clock_entries_immutable [where ops = ?ops]
  have "distinct (map id_field (history (run ?ops useQuestions)))" by blast
  ultimately show ?thesis
    using h by (simp add: toString_1000 toString_1001)
qed

section \<open>The operations of the client\<close>

text \<open>
  C7, as stated, fails: the object \<open>api\<close> has two properties, not four, and neither
  issues \<open>GET /health\<close> or \<open>DELETE /reset\<close>.
\<close>

theorem api_lacks_health_and_reset_counterexample:
  "length api = 2
   \<and> (''GET'', ''/health'') \<notin> set (map api_endpoint api)
   \<and> (''DELETE'', ''/reset'') \<notin> set (map api_endpoint api)"
  by (simp add: api_def)

text \<open>
  C7, amended. The client provides two operations, \<open>uploadPdf(file)\<close> returning the
  upload response and \<open>askQuestion(question)\<close> returning the answer with its source
  documents. Each passes exactly one request to \<open>fetch\<close>: a \<open>POST\<close> to the configured
  base URL followed by \<open>/upload-pdf\<close>, respectively \<open>/ask-question\<close>. When \<open>fetch\<close>
  resolves with a 2xx response whose body \<open>response.json()\<close> reads, the operation
  returns exactly that value, and it returns a value in no other case.
\<close>

theorem api_two_operations:
  "map api_endpoint api = [(''POST'', ''/upload-pdf''), (''POST'', ''/ask-question'')]
   \<and> snd (api_uploadPdf e f) = [uploadPdf_request e f]
   \<and> method (uploadPdf_request e f) = fst (api_endpoint uploadPdf)
   \<and> url (uploadPdf_request e f) = API_BASE_URL e @ snd (api_endpoint uploadPdf)
   \<and> (\<forall>resp v. fetch e (uploadPdf_request e f) = Resolved resp \<and> ok resp
          \<and> json e (body_text resp) = Inr v
        \<longrightarrow> fst (api_uploadPdf e f) = Inr v)
   \<and> (\<forall>v. fst (api_uploadPdf e f) = Inr v
        \<longrightarrow> (\<exists>resp. fetch e (uploadPdf_request e f) = Resolved resp \<and> ok resp
              \<and> json e (body_text resp) = Inr v))
   \<and> snd (api_askQuestion d q) = [askQuestion_request d q]
   \<and> method (askQuestion_request d q) = fst (api_endpoint askQuestion)
   \<and> url (askQuestion_request d q) = API_BASE_URL d @ snd (api_endpoint askQuestion)
   \<and> (\<forall>resp r. fetch d (askQuestion_request d q) = Resolved resp \<and> ok resp
          \<and> json d (body_text resp) = Inr r
        \<longrightarrow> fst (api_askQuestion d q) = Inr (r :: QuestionResponse))
   \<and> (\<forall>r. fst (api_askQuestion d q) = Inr r
        \<longrightarrow> (\<exists>resp. fetch d (askQuestion_request d q) = Resolved resp \<and> ok resp
              \<and> json d (body_text resp) = Inr r))"
proof -
  have returns: "settle_response e' failed x = Inr v'
      \<longleftrightarrow> (\<exists>resp. x = Resolved resp \<and> ok resp \<and> json e' (body_text resp) = Inr v')"
    for e' :: "'b env" and failed x v'
    by (cases x) (auto simp: settle_response_def split: sum.splits)
  have up: "fst (api_uploadPdf e f) = settle_response e ''Upload failed''
      (fetch e (uploadPdf_request e f))"
    by (simp add: api_uploadPdf_def Let_def)
  have ask: "fst (api_askQuestion d q) = settle_response d ''Question failed''
      (fetch d (askQuestion_request d q))"
    by (simp add: api_askQuestion_def Let_def)
  have ends: "map api_endpoint api = [(''POST'', ''/upload-pdf''), (''POST'', ''/ask-question'')]"
    "method (uploadPdf_request e f) = fst (api_endpoint uploadPdf)"
    "url (uploadPdf_request e f) = API_BASE_URL e @ snd (api_endpoint uploadPdf)"
    "method (askQuestion_request d q) = fst (api_endpoint askQuestion)"
    "url (askQuestion_request d q) = API_BASE_URL d @ snd (api_endpoint askQuestion)"
    by (simp_all add: api_def uploadPdf_request_def askQuestion_request_def)
  show ?thesis
    unfolding up ask returns
    using ends api_uploadPdf_requests [of e f] api_askQuestion_requests [of d q]
    by blast
qed

theorem api_two_operations_witness:
  "fetch (responding 200 ''stored'' read_upload)
       (uploadPdf_request (responding 200 ''stored'' read_upload) a_pdf)
     = Resolved \<lparr>status = 200, body_text = ''stored''\<rparr>
   \<and> ok \<lparr>status = 200, body_text = ''stored''\<rparr>
   \<and> json (responding 200 ''stored'' read_upload) ''stored''
     = Inr \<lparr>message = ''stored'', filename = ''a.pdf'', chunks_created = 12, file_size_mb = 2\<rparr>
   \<and> fst (api_uploadPdf (responding 200 ''stored'' read_upload) a_pdf)
     = Inr \<lparr>message = ''stored'', filename = ''a.pdf'', chunks_created = 12, file_size_mb = 2\<rparr>
   \<and> fetch (responding 200 ''X is...'' read_answer)
       (askQuestion_request (responding 200 ''X is...'' read_answer) ''What is X?'')
     = Resolved \<lparr>status = 200, body_text = ''X is...''\<rparr>
   \<and> json (responding 200 ''X is...'' read_answer) ''X is...''
     = Inr \<lparr>answer = ''X is...'', source_documents = [''p.3'']\<rparr>
   \<and> fst (api_askQuestion (responding 200 ''X is...'' read_answer) ''What is X?'')
     = Inr \<lparr>answer = ''X is...'', source_documents = [''p.3'']\<rparr>"
proof -
  let ?e = "responding 200 ''stored'' read_upload"
  let ?d = "responding 200 ''X is...'' read_answer"
  let ?up = "\<lparr>message = ''stored'', filename = ''a.pdf'', chunks_created = 12::nat,
    file_size_mb = 2\<rparr>"
  let ?ans = "\<lparr>answer = ''X is...'', source_documents = [''p.3'']\<rparr>"
  have fe: "fetch ?e (uploadPdf_request ?e a_pdf) = Resolved \<lparr>status = 200, body_text = ''stored''\<rparr>"
    and fd: "fetch ?d (askQuestion_request ?d ''What is X?'')
      = Resolved \<lparr>status = 200, body_text = ''X is...''\<rparr>"
    by (simp_all add: responding_def)
  have oke: "ok \<lparr>status = 200, body_text = ''stored''\<rparr>"
    and okd: "ok \<lparr>status = 200, body_text = ''X is...''\<rparr>"
    by (simp_all add: ok_def)
  have je: "json ?e (body_text \<lparr>status = 200, body_text = ''stored''\<rparr>) = Inr ?up"
    and jd: "json ?d (body_text \<lparr>status = 200, body_text = ''X is...''\<rparr>) = Inr ?ans"
    by (simp_all add: responding_def read_upload_def read_answer_def)
  from api_two_operations [where e = ?e and f = a_pdf and d = ?d and q = "''What is X?''"]
  have "fst (api_uploadPdf ?e a_pdf) = Inr ?up" "fst (api_askQuestion ?d ''What is X?'') = Inr ?ans"
    using fe oke je fd okd jd by blast+
  with fe oke je fd jd show ?thesis by simp
qed

section \<open>The upload widget\<close>

lemma handleFileSelect_requests:
  "snd (handleFileSelect cb e f st) = [uploadPdf_request e f]"
  by (simp add: handleFileSelect_def uploadFile_cases split: sum.splits)

lemma find_first:
  "\<forall>g\<in>set pre. \<not> P g \<Longrightarrow> P f \<Longrightarrow> find P (pre @ f # post) = Some f"
  by (induction pre) simp_all

text \<open>
  C8, as stated, fails on the file picker: \<open>handleFileInput\<close> uploads a file of type
  \<open>text/plain\<close>.
\<close>

theorem handleFileInput_uploads_non_pdf_counterexample:
  "type notes_txt \<noteq> ''application/pdf''
   \<and> snd (handleFileInput (\<lambda>result p. p) (responding 200 ''stored'' read_upload)
        (Some [notes_txt]) (useFileUpload, ()))
     = [uploadPdf_request (responding 200 ''stored'' read_upload) notes_txt]
   \<and> uploadResult (fst (fst (handleFileInput (\<lambda>result p. p)
        (responding 200 ''stored'' read_upload) (Some [notes_txt]) (useFileUpload, ()))))
     = Some \<lparr>message = ''stored'', filename = ''a.pdf'', chunks_created = 12, file_size_mb = 2\<rparr>"
  by (simp add: handleFileInput_def handleFileSelect_def uploadFile_cases
      api_uploadPdf_responding_200 notes_txt_def)

text \<open>
  C8, amended. On a drop, nothing is uploaded and the state is unchanged when no dropped
  file has MIME type \<open>application/pdf\<close>; otherwise the first dropped file of that type
  is handed to \<open>handleFileSelect\<close>, which makes one upload request for it; every
  request a drop makes is the upload of a dropped file of that type. The file picker's
  handler does not look at the type: it hands the first selected file to
  \<open>handleFileSelect\<close>, and does nothing when no file is selected.
\<close>

theorem handleDrop_first_pdf_handleFileInput_first_file:
  "((\<forall>g\<in>set files. type g \<noteq> ''application/pdf'')
      \<longrightarrow> handleDrop cb e files st = (st, []))
   \<and> (files = pre @ f # post \<and> (\<forall>g\<in>set pre. type g \<noteq> ''application/pdf'')
        \<and> type f = ''application/pdf''
      \<longrightarrow> handleDrop cb e files st = handleFileSelect cb e f st
        \<and> snd (handleDrop cb e files st) = [uploadPdf_request e f])
   \<and> (\<forall>r\<in>set (snd (handleDrop cb e files st)).
        \<exists>g\<in>set files. type g = ''application/pdf'' \<and> r = uploadPdf_request e g)
   \<and> handleFileInput cb e None st = (st, [])
   \<and> handleFileInput cb e (Some []) st = (st, [])
   \<and> handleFileInput cb e (Some (f' # rest)) st = handleFileSelect cb e f' st
   \<and> snd (handleFileInput cb e (Some (f' # rest)) st) = [uploadPdf_request e f']"
proof -
  have none: "handleDrop cb e files st = (st, [])"
    if "\<forall>g\<in>set files. type g \<noteq> ''application/pdf''"
  proof -
    from that have "find (\<lambda>f. type f = ''application/pdf'') files = None"
      by (simp add: find_None_iff)
    then show ?thesis by (simp add: handleDrop_def)
  qed
  have first: "handleDrop cb e files st = handleFileSelect cb e f st"
    if "files = pre @ f # post" "\<forall>g\<in>set pre. type g \<noteq> ''application/pdf''"
      "type f = ''application/pdf''"
  proof -
    from that have "find (\<lambda>f. type f = ''application/pdf'') files = Some f"
      by (simp add: find_first)
    then show ?thesis by (simp add: handleDrop_def)
  qed
  have only: "\<forall>r\<in>set (snd (handleDrop cb e files st)).
      \<exists>g\<in>set files. type g = ''application/pdf'' \<and> r = uploadPdf_request e g"
  proof (cases "find (\<lambda>f. type f = ''application/pdf'') files")
    case None
    then show ?thesis by (simp add: handleDrop_def)
  next
    case (Some g)
    then have "g \<in> set files" "type g = ''application/pdf''"
      by (auto simp: find_Some_iff)
    with Some show ?thesis
      by (auto simp: handleDrop_def handleFileSelect_requests)
  qed
  from none first only show ?thesis
    by (simp add: handleFileInput_def handleFileSelect_requests)
qed

theorem handleDrop_first_pdf_handleFileInput_first_file_witness:
  "type notes_txt \<noteq> ''application/pdf''
   \<and> handleDrop (\<lambda>result p. p) (responding 200 ''stored'' read_upload) [notes_txt]
        (useFileUpload, ()) = ((useFileUpload, ()), [])
   \<and> [notes_txt, a_pdf, a_pdf\<lparr>name := ''b.pdf''\<rparr>]
        = [notes_txt] @ a_pdf # [a_pdf\<lparr>name := ''b.pdf''\<rparr>]
   \<and> type a_pdf = ''application/pdf''
   \<and> snd (handleDrop (\<lambda>result p. p) (responding 200 ''stored'' read_upload)
        [notes_txt, a_pdf, a_pdf\<lparr>name := ''b.pdf''\<rparr>] (useFileUpload, ()))
     = [uploadPdf_request (responding 200 ''stored'' read_upload) a_pdf]"
  using handleDrop_first_pdf_handleFileInput_first_file
      [where files = "[notes_txt]" and cb = "\<lambda>result p. p"
         and e = "responding 200 ''stored'' read_upload" and st = "(useFileUpload, ())"]
    handleDrop_first_pdf_handleFileInput_first_file
      [where files = "[notes_txt, a_pdf, a_pdf\<lparr>name := ''b.pdf''\<rparr>]"
         and pre = "[notes_txt]" and f = a_pdf and post = "[a_pdf\<lparr>name := ''b.pdf''\<rparr>]"
         and cb = "\<lambda>result p. p" and e = "responding 200 ''stored'' read_upload"
         and st = "(useFileUpload, ())"]
  by (simp add: notes_txt_def a_pdf_def)

end
